theory Spec2Isabelle
  imports Main "HOL-Library.Word"
begin

section \<open>JavaScript strings\<close>

text \<open>
  A JavaScript string is a sequence of 16-bit code units. String literals of the source
  are ASCII (or are given code unit by code unit) and are written with \<open>lit\<close>.
\<close>

type_synonym jsstring = "16 word list"

definition lit :: "string \<Rightarrow> jsstring" where
  "lit s = map of_char s"

text \<open>
  \<open>String.prototype.trim\<close> removes the code units that ECMAScript calls WhiteSpace or
  LineTerminator from both ends: TAB, LF, VT, FF, CR, SP, NBSP, U+1680, U+2000 to U+200A,
  U+2028, U+2029, U+202F, U+205F, U+3000 and U+FEFF.
\<close>

definition js_whitespace :: "16 word \<Rightarrow> bool" where
  "js_whitespace c \<longleftrightarrow>
     c \<in> {0x09, 0x0A, 0x0B, 0x0C, 0x0D, 0x20, 0xA0, 0x1680,
          0x2028, 0x2029, 0x202F, 0x205F, 0x3000, 0xFEFF}
     \<or> (0x2000 \<le> c \<and> c \<le> 0x200A)"

definition trim :: "jsstring \<Rightarrow> jsstring" where
  "trim s = rev (dropWhile js_whitespace (rev (dropWhile js_whitespace s)))"

text \<open>\<open>Array.prototype.join\<close> on strings.\<close>

fun join :: "jsstring \<Rightarrow> jsstring list \<Rightarrow> jsstring" where
  "join sep [] = []"
| "join sep [x] = x"
| "join sep (x # y # ys) = x @ sep @ join sep (y # ys)"

text \<open>A non-negative integer inside a template literal: its decimal digits.\<close>

definition digit :: "nat \<Rightarrow> 16 word" where
  "digit d = of_nat (48 + d)"

fun show_nat :: "nat \<Rightarrow> jsstring" where
  "show_nat n = (if n < 10 then [digit n] else show_nat (n div 10) @ [digit (n mod 10)])"

declare show_nat.simps [simp del]

section \<open>The relational store\<close>

datatype sender = User | Ai

text \<open>A row of \<open>chat_messages\<close>; \<open>id\<close> and \<open>timestamp\<close> are assigned by the store.\<close>

record chat_row =
  row_id :: nat
  user_id :: nat
  goal_id :: "nat option"
  message :: jsstring
  sender :: sender
  timestamp :: nat

record goal =
  g_id :: nat
  g_user_id :: nat
  g_title :: jsstring
  g_description :: jsstring
  g_status :: jsstring
  g_difficulty_level :: jsstring
  g_estimated_duration_weeks :: nat
  g_updated_at :: nat

record milestone =
  m_id :: nat
  m_goal_id :: nat
  m_title :: jsstring
  m_completed :: bool
  m_due_date :: "nat option"
  m_milestone_order :: nat

text \<open>
  The store: the three tables the handlers touch, the sequence behind
  \<open>chat_messages.id\<close> and the clock behind \<open>NOW()\<close>. Rows are kept in insertion order.
\<close>

record db =
  chat_messages :: "chat_row list"
  goals :: "goal list"
  milestones :: "milestone list"
  next_id :: nat
  clock :: nat

text \<open>
  Every \<open>pool.query\<close> of the source may reject. Which call rejects is decided by
  the environment of one handler run: one flag per call site.
\<close>

record faults =
  f_insert_user :: bool      \<comment> \<open>the INSERT of the user's turn\<close>
  f_history :: bool          \<comment> \<open>the SELECT of \<open>get_chat_history\<close>\<close>
  f_recent :: bool           \<comment> \<open>the SELECT of the ten most recent turns\<close>
  f_goal :: bool             \<comment> \<open>the goal and milestones SELECT\<close>
  f_stats :: bool            \<comment> \<open>the profile statistics SELECT\<close>
  f_recent_goals :: bool     \<comment> \<open>the SELECT of recent active goals\<close>
  f_insert_ai :: bool        \<comment> \<open>the INSERT of the completed AI turn\<close>
  f_insert_fallback :: bool  \<comment> \<open>the INSERT of the fallback AI turn\<close>

datatype error = DbError | StreamError

text \<open>
  \<open>INSERT INTO chat_messages (user_id, goal_id, message, sender, timestamp)
  VALUES ($1, $2, $3, $4, NOW()) RETURNING *\<close>: the store assigns the id and the timestamp
  and returns the new row.
\<close>

definition insert_chat_message ::
  "bool \<Rightarrow> db \<Rightarrow> nat \<Rightarrow> nat option \<Rightarrow> jsstring \<Rightarrow> sender \<Rightarrow> error + (db \<times> chat_row)" where
  "insert_chat_message fails d uid gid msg who =
     (if fails then Inl DbError
      else let r = \<lparr>row_id = next_id d, user_id = uid, goal_id = gid, message = msg,
                     sender = who, timestamp = clock d\<rparr>
           in Inr (d\<lparr>chat_messages := chat_messages d @ [r],
                     next_id := Suc (next_id d), clock := Suc (clock d)\<rparr>, r))"

text \<open>\<open>ORDER BY timestamp DESC\<close>.\<close>

definition order_by_timestamp_desc :: "chat_row list \<Rightarrow> chat_row list" where
  "order_by_timestamp_desc rs = rev (sort_key timestamp rs)"

text \<open>
  The store keeps what it stamps: ids below the sequence, timestamps below the clock,
  and no two rows with one timestamp.
\<close>

definition db_ok :: "db \<Rightarrow> bool" where
  "db_ok d \<longleftrightarrow>
     list_all (\<lambda>r. row_id r < next_id d \<and> timestamp r < clock d) (chat_messages d)
     \<and> distinct (map timestamp (chat_messages d))"

section \<open>Connections and events\<close>

text \<open>The fields \<open>socketAuthMiddleware\<close> attaches to a connection, and its id.\<close>

record socket =
  sid :: nat
  userId :: nat
  userEmail :: jsstring

text \<open>The columns \<open>get_chat_history\<close> selects.\<close>

record history_row =
  h_id :: nat
  h_message :: jsstring
  h_sender :: sender
  h_timestamp :: nat
  h_goal_id :: "nat option"

datatype event =
    ErrorEv jsstring                       \<comment> \<open>\<open>error {message}\<close>\<close>
  | ChatMessageEv nat jsstring sender nat  \<comment> \<open>\<open>chat_message {id, message, sender, timestamp}\<close>\<close>
  | UserTypingEv nat bool                  \<comment> \<open>\<open>user_typing {userId, isTyping}\<close>\<close>
  | ChatHistoryEv "history_row list" bool  \<comment> \<open>\<open>chat_history {messages, hasMore}\<close>\<close>
  | AiTypingEv bool                        \<comment> \<open>\<open>ai_typing\<close>\<close>
  | AiMessageChunkEv jsstring bool         \<comment> \<open>\<open>ai_message_chunk {content, isComplete}\<close>\<close>

text \<open>
  What a handler does, in the order it does it: a row written to the store, an event
  sent to a connection, a timer armed for \<open>generateAIResponse\<close>.
\<close>

datatype effect =
    Persist chat_row
  | Emit nat event
  | SetTimeout nat nat jsstring "nat option"
      \<comment> \<open>delay in ms, then \<open>generateAIResponse(socket, pool, message, goalId)\<close>\<close>

section \<open>The \<open>chat_message\<close> handler\<close>

record chat_message_data =
  cm_message :: "jsstring option"
  cm_goalId :: "nat option"

text \<open>JavaScript truthiness of an id field: \<open>undefined\<close>, \<open>null\<close> and \<open>0\<close> are falsy.\<close>

definition truthy_id :: "nat option \<Rightarrow> bool" where
  "truthy_id g = (case g of None \<Rightarrow> False | Some n \<Rightarrow> n \<noteq> 0)"

text \<open>\<open>goalId || null\<close>.\<close>

definition or_null :: "nat option \<Rightarrow> nat option" where
  "or_null g = (if truthy_id g then g else None)"

text \<open>
  \<open>!message || message.trim() === ""\<close>: an absent message and the empty string are
  falsy; a string that trims to nothing is refused as well.
\<close>

definition chat_message :: "faults \<Rightarrow> socket \<Rightarrow> db \<Rightarrow> chat_message_data \<Rightarrow> db \<times> effect list" where
  "chat_message fl s d dat =
     (case cm_message dat of
        None \<Rightarrow> (d, [Emit (sid s) (ErrorEv (lit ''Message cannot be empty''))])
      | Some msg \<Rightarrow>
          if msg = [] \<or> trim msg = []
          then (d, [Emit (sid s) (ErrorEv (lit ''Message cannot be empty''))])
          else (case insert_chat_message (f_insert_user fl) d (userId s)
                       (or_null (cm_goalId dat)) msg User of
                  Inl e \<Rightarrow> (d, [Emit (sid s) (ErrorEv (lit ''Failed to process message''))])
                | Inr (d', r) \<Rightarrow>
                    (d', [Persist r,
                          Emit (sid s) (ChatMessageEv (row_id r) msg User (timestamp r)),
                          SetTimeout 1000 (sid s) msg (cm_goalId dat)])))"

section \<open>The \<open>typing\<close> handler and the rooms\<close>

text \<open>
  The server's connections and the rooms they joined. \<open>user_room\<close> is the
  template literal \<open>`user_${socket.userId}`\<close>.
\<close>

record io =
  sockets :: "socket list"
  rooms :: "(nat \<times> jsstring) list"

definition user_room :: "nat \<Rightarrow> jsstring" where
  "user_room uid = lit ''user_'' @ show_nat uid"

definition io_empty :: io where
  "io_empty = \<lparr>sockets = [], rooms = []\<rparr>"

text \<open>\<open>io.on("connection", ...)\<close>: the connection joins its user's room.\<close>

definition connection :: "io \<Rightarrow> socket \<Rightarrow> io" where
  "connection i s =
     i\<lparr>sockets := sockets i @ [s], rooms := rooms i @ [(sid s, user_room (userId s))]\<rparr>"

text \<open>On disconnect Socket.IO takes the connection out of every room.\<close>

definition disconnect :: "io \<Rightarrow> socket \<Rightarrow> io" where
  "disconnect i s =
     i\<lparr>sockets := filter (\<lambda>t. sid t \<noteq> sid s) (sockets i),
       rooms := filter (\<lambda>(c, r). c \<noteq> sid s) (rooms i)\<rparr>"

text \<open>
  \<open>socket.to(room).emit(...)\<close> sends to every connection in the room except the
  sending one.
\<close>

definition socket_to :: "io \<Rightarrow> socket \<Rightarrow> jsstring \<Rightarrow> socket list" where
  "socket_to i s room = [t \<leftarrow> sockets i. (sid t, room) \<in> set (rooms i) \<and> sid t \<noteq> sid s]"

definition typing :: "io \<Rightarrow> socket \<Rightarrow> bool \<Rightarrow> effect list" where
  "typing i s isTyping =
     map (\<lambda>t. Emit (sid t) (UserTypingEv (userId s) isTyping))
         (socket_to i s (user_room (userId s)))"

text \<open>The registry as the connection handler builds it, with one id per connection.\<close>

definition io_ok :: "io \<Rightarrow> bool" where
  "io_ok i \<longleftrightarrow>
     distinct (map sid (sockets i))
     \<and> rooms i = map (\<lambda>t. (sid t, user_room (userId t))) (sockets i)"

section \<open>The \<open>get_chat_history\<close> handler\<close>

record history_request =
  hr_goalId :: "nat option"
  hr_limit :: "int option"
  hr_offset :: "int option"

text \<open>\<open>const { goalId, limit = 50, offset = 0 } = data\<close>.\<close>

definition limit_of :: "history_request \<Rightarrow> int" where
  "limit_of req = (case hr_limit req of None \<Rightarrow> 50 | Some l \<Rightarrow> l)"

definition offset_of :: "history_request \<Rightarrow> int" where
  "offset_of req = (case hr_offset req of None \<Rightarrow> 0 | Some k \<Rightarrow> k)"

text \<open>
  The statement the handler builds: whether \<open>AND goal_id = $2\<close> was appended, and the
  positional parameters, \<open>limit\<close> and \<open>offset\<close> pushed last.
\<close>

definition history_statement :: "socket \<Rightarrow> nat option \<Rightarrow> int \<Rightarrow> int \<Rightarrow> bool \<times> int list" where
  "history_statement s goalId limit offset =
     (let params = [int (userId s)];
          (with_goal, params) =
             (case goalId of
                Some g \<Rightarrow> if g \<noteq> 0 then (True, params @ [int g]) else (False, params)
              | None \<Rightarrow> (False, params))
      in (with_goal, params @ [limit, offset]))"

definition to_history_row :: "chat_row \<Rightarrow> history_row" where
  "to_history_row r =
     \<lparr>h_id = row_id r, h_message = message r, h_sender = sender r,
      h_timestamp = timestamp r, h_goal_id = goal_id r\<rparr>"

text \<open>
  The store running \<open>SELECT id, message, sender, timestamp, goal_id FROM chat_messages
  WHERE user_id = $1 [AND goal_id = $2] ORDER BY timestamp DESC LIMIT $n OFFSET $m\<close>.
  PostgreSQL refuses a negative LIMIT or OFFSET.
\<close>

definition limit_offset :: "int \<Rightarrow> int \<Rightarrow> 'a list \<Rightarrow> error + 'a list" where
  "limit_offset l k rs =
     (if l < 0 \<or> k < 0 then Inl DbError else Inr (take (nat l) (drop (nat k) rs)))"

fun select_history :: "bool \<Rightarrow> db \<Rightarrow> bool \<times> int list \<Rightarrow> error + chat_row list" where
  "select_history fails d (False, [u, l, k]) =
     (if fails then Inl DbError
      else limit_offset l k
             (order_by_timestamp_desc [r \<leftarrow> chat_messages d. int (user_id r) = u]))"
| "select_history fails d (True, [u, g, l, k]) =
     (if fails then Inl DbError
      else limit_offset l k
             (order_by_timestamp_desc
                [r \<leftarrow> chat_messages d.
                   int (user_id r) = u \<and> (case goal_id r of None \<Rightarrow> False | Some h \<Rightarrow> int h = g)]))"
| "select_history fails d (w, ps) = Inl DbError"

definition get_chat_history :: "faults \<Rightarrow> socket \<Rightarrow> db \<Rightarrow> history_request \<Rightarrow> effect list" where
  "get_chat_history fl s d req =
     (let goalId = hr_goalId req; limit = limit_of req; offset = offset_of req
      in case select_history (f_history fl) d (history_statement s goalId limit offset) of
           Inl e \<Rightarrow> [Emit (sid s) (ErrorEv (lit ''Failed to load chat history''))]
         | Inr rows \<Rightarrow>
             [Emit (sid s)
                (ChatHistoryEv (map to_history_row (rev rows)) (int (length rows) = limit))])"

section \<open>\<open>generateAIResponse\<close>: the context queries\<close>

definition systemPrompt :: jsstring where
  "systemPrompt = lit (
    ''You are an AI tutor helping a student achieve their learning goals. Your role:\<newline>'' @
    ''- Provide encouraging, supportive guidance\<newline>'' @
    ''- Ask clarifying questions to understand their needs\<newline>'' @
    ''- Offer specific, actionable advice\<newline>'' @
    ''- Break down complex concepts into manageable steps\<newline>'' @
    ''- Celebrate progress and help overcome obstacles\<newline>'' @
    ''- Keep responses conversational and engaging\<newline>'' @
    ''\<newline>'' @
    ''Guidelines:\<newline>'' @
    ''- Be encouraging but realistic\<newline>'' @
    ''- Provide specific examples when helpful\<newline>'' @
    ''- Ask follow-up questions to gauge understanding\<newline>'' @
    ''- Suggest practical exercises or next steps\<newline>'' @
    ''- Keep responses focused and concise (2-3 paragraphs max)'')"

definition fallbackResponse :: jsstring where
  "fallbackResponse =
     lit ''I'm here to help you with your learning goals! What would you like to work on today?''"

text \<open>
  \<open>SELECT message, sender FROM chat_messages WHERE user_id = $1
  ORDER BY timestamp DESC LIMIT 10\<close>: the rows it picks, and the two columns of each.
\<close>

definition recent_rows :: "db \<Rightarrow> nat \<Rightarrow> chat_row list" where
  "recent_rows d uid =
     take 10 (order_by_timestamp_desc [r \<leftarrow> chat_messages d. user_id r = uid])"

definition select_recent :: "bool \<Rightarrow> db \<Rightarrow> nat \<Rightarrow> error + (jsstring \<times> sender) list" where
  "select_recent fails d uid =
     (if fails then Inl DbError
      else Inr (map (\<lambda>r. (message r, sender r)) (recent_rows d uid)))"

text \<open>\<open>chatHistory.rows.map(row => ({role: ..., content: row.message}))\<close>.\<close>

definition recentMessages :: "(jsstring \<times> sender) list \<Rightarrow> (jsstring \<times> jsstring) list" where
  "recentMessages rows =
     map (\<lambda>(msg, who). (if who = User then lit ''user'' else lit ''assistant'', msg)) rows"

text \<open>\<open>xs.slice(-10)\<close>: the last ten elements.\<close>

definition slice_last :: "nat \<Rightarrow> 'a list \<Rightarrow> 'a list" where
  "slice_last n xs = drop (length xs - n) xs"

definition history_lines :: "(jsstring \<times> jsstring) list \<Rightarrow> jsstring list" where
  "history_lines msgs =
     map (\<lambda>(role, content).
            (if role = lit ''user'' then lit ''User'' else lit ''Assistant'') @ lit '': '' @ content)
         (slice_last 10 msgs)"

definition conversationHistory :: "(jsstring \<times> jsstring) list \<Rightarrow> jsstring" where
  "conversationHistory msgs = join (lit ''\<newline>'') (history_lines msgs)"

text \<open>
  One element of the \<open>array_agg(json_build_object(...))\<close> column. A goal without
  milestones yields, through the LEFT JOIN, one object whose fields are all null.
\<close>

record milestone_json =
  mj_title :: "jsstring option"
  mj_completed :: "bool option"
  mj_due_date :: "nat option"
  mj_milestone_order :: "nat option"

record goal_result =
  gr_title :: jsstring
  gr_description :: jsstring
  gr_status :: jsstring
  gr_difficulty_level :: jsstring
  gr_estimated_duration_weeks :: nat
  gr_milestones :: "milestone_json list"

definition milestone_object :: "milestone \<Rightarrow> milestone_json" where
  "milestone_object m =
     \<lparr>mj_title = Some (m_title m), mj_completed = Some (m_completed m),
      mj_due_date = m_due_date m, mj_milestone_order = Some (m_milestone_order m)\<rparr>"

definition null_object :: milestone_json where
  "null_object = \<lparr>mj_title = None, mj_completed = None, mj_due_date = None,
                  mj_milestone_order = None\<rparr>"

definition aggregate_milestones :: "db \<Rightarrow> goal \<Rightarrow> milestone_json list" where
  "aggregate_milestones d g =
     (let ms = sort_key m_milestone_order [m \<leftarrow> milestones d. m_goal_id m = g_id g]
      in if ms = [] then [null_object] else map milestone_object ms)"

text \<open>
  The goal query: \<open>FROM goals g LEFT JOIN milestones m ON g.id = m.goal_id
  WHERE g.id = $1 AND g.user_id = $2 GROUP BY g.id\<close>, one row per goal that matches
  (\<open>goals.id\<close> is the primary key).
\<close>

definition select_goal :: "bool \<Rightarrow> db \<Rightarrow> nat \<Rightarrow> nat \<Rightarrow> error + goal_result list" where
  "select_goal fails d gid uid =
     (if fails then Inl DbError
      else Inr (map (\<lambda>g. \<lparr>gr_title = g_title g, gr_description = g_description g,
                           gr_status = g_status g,
                           gr_difficulty_level = g_difficulty_level g,
                           gr_estimated_duration_weeks = g_estimated_duration_weeks g,
                           gr_milestones = aggregate_milestones d g\<rparr>)
                  [g \<leftarrow> goals d. g_id g = gid \<and> g_user_id g = uid]))"

record user_stats =
  total_goals :: nat
  active_goals :: nat
  completed_goals :: nat
  total_milestones :: nat
  completed_milestones :: nat
  total_chat_messages :: nat

definition count_distinct :: "nat list \<Rightarrow> nat" where
  "count_distinct xs = length (remdups xs)"

text \<open>
  The profile statistics: aggregates over \<open>goals g LEFT JOIN milestones m LEFT JOIN
  chat_messages cm WHERE g.user_id = $1\<close>, always one row. A user without goals has no
  joined row, so every count is 0 then.
\<close>

definition select_stats :: "bool \<Rightarrow> db \<Rightarrow> nat \<Rightarrow> error + user_stats list" where
  "select_stats fails d uid =
     (if fails then Inl DbError
      else let gs = [g \<leftarrow> goals d. g_user_id g = uid];
               ms = [m \<leftarrow> milestones d. m_goal_id m \<in> set (map g_id gs)];
               cs = (if gs = [] then [] else [r \<leftarrow> chat_messages d. user_id r = uid])
           in Inr [\<lparr>total_goals = count_distinct (map g_id gs),
                    active_goals =
                      count_distinct (map g_id [g \<leftarrow> gs. g_status g = lit ''active'']),
                    completed_goals =
                      count_distinct (map g_id [g \<leftarrow> gs. g_status g = lit ''completed'']),
                    total_milestones = count_distinct (map m_id ms),
                    completed_milestones = count_distinct (map m_id [m \<leftarrow> ms. m_completed m]),
                    total_chat_messages = count_distinct (map row_id cs)\<rparr>])"

text \<open>
  \<open>SELECT title, status, difficulty_level FROM goals WHERE user_id = $1 AND status IN
  ('active', 'paused') ORDER BY updated_at DESC LIMIT 3\<close>.
\<close>

definition select_recent_goals ::
  "bool \<Rightarrow> db \<Rightarrow> nat \<Rightarrow> error + (jsstring \<times> jsstring \<times> jsstring) list" where
  "select_recent_goals fails d uid =
     (if fails then Inl DbError
      else Inr (map (\<lambda>g. (g_title g, g_status g, g_difficulty_level g))
                  (take 3 (rev (sort_key g_updated_at
                     [g \<leftarrow> goals d. g_user_id g = uid
                         \<and> (g_status g = lit ''active'' \<or> g_status g = lit ''paused'')])))))"

section \<open>\<open>generateAIResponse\<close>: the prompt\<close>

text \<open>A nullable string inside a template literal.\<close>

definition show_nullable :: "jsstring option \<Rightarrow> jsstring" where
  "show_nullable t = (case t of None \<Rightarrow> lit ''null'' | Some s \<Rightarrow> s)"

text \<open>
  The block for one goal. \<open>toLocaleDateString\<close> depends on the server's locale and is a
  parameter.
\<close>

definition goal_context :: "(nat \<Rightarrow> jsstring) \<Rightarrow> goal_result \<Rightarrow> jsstring" where
  "goal_context toLocaleDateString goal =
     (let completedMilestones =
            length [m \<leftarrow> gr_milestones goal. mj_completed m = Some True];
          totalMilestones = length (gr_milestones goal);
          nextMilestone = find (\<lambda>m. mj_completed m \<noteq> Some True) (gr_milestones goal);
          ctx = lit ''\<newline>\<newline>Current Learning Context:\<newline>- Goal: '' @ gr_title goal
                @ lit '' ('' @ gr_difficulty_level goal @ lit '' level)''
                @ lit ''\<newline>- Description: '' @ gr_description goal
                @ lit ''\<newline>- Status: '' @ gr_status goal
                @ lit ''\<newline>- Progress: '' @ show_nat completedMilestones @ lit ''/''
                @ show_nat totalMilestones @ lit '' milestones completed''
                @ lit ''\<newline>- Estimated Duration: ''
                @ show_nat (gr_estimated_duration_weeks goal) @ lit '' weeks''
      in case nextMilestone of
           None \<Rightarrow> ctx
         | Some m \<Rightarrow>
             ctx @ lit ''\<newline>- Next Milestone: '' @ show_nullable (mj_title m)
             @ (case mj_due_date m of
                  None \<Rightarrow> []
                | Some due \<Rightarrow> lit '' (Due: '' @ toLocaleDateString due @ lit '')''))"

definition profile_context :: "user_stats \<Rightarrow> (jsstring \<times> jsstring \<times> jsstring) list \<Rightarrow> jsstring" where
  "profile_context stats recentGoals =
     lit ''\<newline>\<newline>User Learning Profile:\<newline>- Total Goals: '' @ show_nat (total_goals stats)
     @ lit '' ('' @ show_nat (active_goals stats) @ lit '' active, ''
     @ show_nat (completed_goals stats) @ lit '' completed)''
     @ lit ''\<newline>- Milestone Progress: '' @ show_nat (completed_milestones stats) @ lit ''/''
     @ show_nat (total_milestones stats) @ lit '' completed''
     @ lit ''\<newline>- Chat History: '' @ show_nat (total_chat_messages stats)
     @ lit '' messages exchanged''
     @ (if recentGoals = [] then []
        else lit ''\<newline>- Recent Active Goals: ''
             @ join (lit '', '')
                 (map (\<lambda>(title, status, level). title @ lit '' ('' @ status @ lit '')'')
                      recentGoals))"

text \<open>The branch for a goal: empty when the query has no row.\<close>

definition goal_branch ::
  "(nat \<Rightarrow> jsstring) \<Rightarrow> faults \<Rightarrow> db \<Rightarrow> nat \<Rightarrow> nat \<Rightarrow> error + jsstring" where
  "goal_branch toLocaleDateString fl d uid gid =
     (case select_goal (f_goal fl) d gid uid of
        Inl e \<Rightarrow> Inl e
      | Inr [] \<Rightarrow> Inr []
      | Inr (goal # rest) \<Rightarrow> Inr (goal_context toLocaleDateString goal))"

text \<open>The branch for general chat.\<close>

definition profile_branch :: "faults \<Rightarrow> db \<Rightarrow> nat \<Rightarrow> error + jsstring" where
  "profile_branch fl d uid =
     (case select_stats (f_stats fl) d uid of
        Inl e \<Rightarrow> Inl e
      | Inr [] \<Rightarrow> Inr []
      | Inr (stats # rest) \<Rightarrow>
          (case select_recent_goals (f_recent_goals fl) d uid of
             Inl e \<Rightarrow> Inl e
           | Inr recentGoals \<Rightarrow> Inr (profile_context stats recentGoals)))"

text \<open>
  \<open>personalizedContext\<close>, or the error of the query that rejected. \<open>if (goalId)\<close>
  takes the goal branch for a truthy id.
\<close>

definition personalizedContext ::
  "(nat \<Rightarrow> jsstring) \<Rightarrow> faults \<Rightarrow> db \<Rightarrow> nat \<Rightarrow> nat option \<Rightarrow> error + jsstring" where
  "personalizedContext toLocaleDateString fl d uid goalId =
     (case goalId of
        Some gid \<Rightarrow>
          if gid \<noteq> 0 then goal_branch toLocaleDateString fl d uid gid
          else profile_branch fl d uid
      | None \<Rightarrow> profile_branch fl d uid)"

definition fullPrompt :: "jsstring \<Rightarrow> jsstring \<Rightarrow> jsstring \<Rightarrow> jsstring" where
  "fullPrompt ctx history userMessage =
     systemPrompt @ ctx @ lit ''\<newline>\<newline>Previous conversation:\<newline>'' @ history
     @ lit ''\<newline>\<newline>User: '' @ userMessage"

text \<open>The prompt handed to the model, or the error that kept it from being built.\<close>

definition assemble_prompt ::
  "(nat \<Rightarrow> jsstring) \<Rightarrow> faults \<Rightarrow> db \<Rightarrow> nat \<Rightarrow> jsstring \<Rightarrow> nat option \<Rightarrow> error + jsstring" where
  "assemble_prompt toLocaleDateString fl d uid userMessage goalId =
     (case select_recent (f_recent fl) d uid of
        Inl e \<Rightarrow> Inl e
      | Inr rows \<Rightarrow>
          (case personalizedContext toLocaleDateString fl d uid goalId of
             Inl e \<Rightarrow> Inl e
           | Inr ctx \<Rightarrow>
               Inr (fullPrompt ctx (conversationHistory (recentMessages rows)) userMessage)))"

section \<open>\<open>generateAIResponse\<close>: streaming and persistence\<close>

text \<open>
  One call of the generation service: the chunk texts it produced, and whether the
  stream then ended or threw. A call that throws at once is \<open>([], Broken)\<close>.
\<close>

datatype stream_end = Done | Broken

type_synonym stream = "jsstring list \<times> stream_end"

text \<open>
  The \<open>for await\<close> loop over the chunks that arrived: an empty chunk text is
  skipped, any other is appended to \<open>fullResponse\<close> and emitted.
\<close>

fun relay :: "nat \<Rightarrow> jsstring list \<Rightarrow> jsstring \<Rightarrow> jsstring \<times> effect list" where
  "relay c [] fullResponse = (fullResponse, [])"
| "relay c (chunkText # rest) fullResponse =
     (if chunkText \<noteq> []
      then (let (full, es) = relay c rest (fullResponse @ chunkText)
            in (full, Emit c (AiMessageChunkEv chunkText False) # es))
      else relay c rest fullResponse)"

text \<open>
  The \<open>try\<close> block: the effects it got to, and the new store or the error that
  ended it.
\<close>

definition try_generate ::
  "(jsstring \<Rightarrow> stream) \<Rightarrow> (nat \<Rightarrow> jsstring) \<Rightarrow> faults \<Rightarrow> socket \<Rightarrow> db \<Rightarrow> jsstring
     \<Rightarrow> nat option \<Rightarrow> effect list \<times> (error + db)" where
  "try_generate gemini toLocaleDateString fl s d userMessage goalId =
     (case assemble_prompt toLocaleDateString fl d (userId s) userMessage goalId of
        Inl e \<Rightarrow> ([], Inl e)
      | Inr prompt \<Rightarrow>
          (let (chunks, fin) = gemini prompt;
               (fullResponse, es) = relay (sid s) chunks []
           in case fin of
                Broken \<Rightarrow> (Emit (sid s) (AiTypingEv True) # es, Inl StreamError)
              | Done \<Rightarrow>
                  (case insert_chat_message (f_insert_ai fl) d (userId s) (or_null goalId)
                          fullResponse Ai of
                     Inl e \<Rightarrow>
                       (Emit (sid s) (AiTypingEv True) # es @ [Emit (sid s) (AiTypingEv False)],
                        Inl e)
                   | Inr (d', r) \<Rightarrow>
                       (Emit (sid s) (AiTypingEv True) # es
                          @ [Emit (sid s) (AiTypingEv False), Persist r,
                             Emit (sid s)
                               (ChatMessageEv (row_id r) fullResponse Ai (timestamp r))],
                        Inr d'))))"

definition generateAIResponse ::
  "(jsstring \<Rightarrow> stream) \<Rightarrow> (nat \<Rightarrow> jsstring) \<Rightarrow> faults \<Rightarrow> socket \<Rightarrow> db \<Rightarrow> jsstring
     \<Rightarrow> nat option \<Rightarrow> db \<times> effect list" where
  "generateAIResponse gemini toLocaleDateString fl s d userMessage goalId =
     (case try_generate gemini toLocaleDateString fl s d userMessage goalId of
        (es, Inr d') \<Rightarrow> (d', es)
      | (es, Inl e) \<Rightarrow>
          (case insert_chat_message (f_insert_fallback fl) d (userId s) (or_null goalId)
                  fallbackResponse Ai of
             Inr (d', r) \<Rightarrow>
               (d', es @ [Persist r, Emit (sid s) (AiTypingEv False),
                          Emit (sid s)
                            (ChatMessageEv (row_id r) fallbackResponse Ai (timestamp r))])
           | Inl e' \<Rightarrow>
               (d, es @ [Emit (sid s) (ErrorEv (lit ''Failed to generate response''))])))"

section \<open>Reading a run\<close>

text \<open>The rows a run wrote, the error events it sent and the chunk texts it sent, in order.\<close>

fun persisted :: "effect list \<Rightarrow> chat_row list" where
  "persisted [] = []"
| "persisted (Persist r # es) = r # persisted es"
| "persisted (e # es) = persisted es"

fun errors_emitted :: "effect list \<Rightarrow> jsstring list" where
  "errors_emitted [] = []"
| "errors_emitted (Emit c (ErrorEv m) # es) = m # errors_emitted es"
| "errors_emitted (e # es) = errors_emitted es"

fun chunks_emitted :: "effect list \<Rightarrow> jsstring list" where
  "chunks_emitted [] = []"
| "chunks_emitted (Emit c (AiMessageChunkEv t b) # es) = t # chunks_emitted es"
| "chunks_emitted (e # es) = chunks_emitted es"

fun timers_armed :: "effect list \<Rightarrow> nat" where
  "timers_armed [] = 0"
| "timers_armed (SetTimeout ms c m g # es) = Suc (timers_armed es)"
| "timers_armed (e # es) = timers_armed es"

text \<open>
  A generation run fails before its turn is stored when a context query rejects, the
  stream throws, or the INSERT of the completed turn rejects.
\<close>

definition generation_step_fails ::
  "(jsstring \<Rightarrow> stream) \<Rightarrow> (nat \<Rightarrow> jsstring) \<Rightarrow> faults \<Rightarrow> socket \<Rightarrow> db \<Rightarrow> jsstring
     \<Rightarrow> nat option \<Rightarrow> bool" where
  "generation_step_fails gemini toLocaleDateString fl s d userMessage goalId =
     (case assemble_prompt toLocaleDateString fl d (userId s) userMessage goalId of
        Inl e \<Rightarrow> True
      | Inr prompt \<Rightarrow> snd (gemini prompt) = Broken \<or> f_insert_ai fl)"

text \<open>The caller's turns, of one goal when a goal id is given.\<close>

definition caller_turns :: "db \<Rightarrow> nat \<Rightarrow> nat option \<Rightarrow> chat_row list" where
  "caller_turns d uid goalId =
     [r \<leftarrow> chat_messages d. user_id r = uid \<and> (truthy_id goalId \<longrightarrow> goal_id r = goalId)]"

definition no_faults :: faults where
  "no_faults = \<lparr>f_insert_user = False, f_history = False, f_recent = False, f_goal = False,
                f_stats = False, f_recent_goals = False, f_insert_ai = False,
                f_insert_fallback = False\<rparr>"

definition empty_db :: db where
  "empty_db = \<lparr>chat_messages = [], goals = [], milestones = [], next_id = 1, clock = 0\<rparr>"

text \<open>
  The context query of a run rejects: the goal query when the goal id is truthy, else
  one of the two profile queries.
\<close>

definition context_query_fails :: "faults \<Rightarrow> nat option \<Rightarrow> bool" where
  "context_query_fails fl goalId =
     (if truthy_id goalId then f_goal fl else f_stats fl \<or> f_recent_goals fl)"

section \<open>What belongs to a caller\<close>






section \<open>Sample inputs\<close>

definition alice :: socket where
  "alice = \<lparr>sid = 1, userId = 7, userEmail = lit ''alice@example.org''\<rparr>"

text \<open>A generation service that throws after one chunk, and one that completes.\<close>

definition stream_breaks :: "jsstring \<Rightarrow> stream" where
  "stream_breaks prompt = ([lit ''Hel''], Broken)"

definition stream_completes :: "jsstring \<Rightarrow> stream" where
  "stream_completes prompt = ([lit ''Hel'', [], lit ''lo''], Done)"

text \<open>
  A store with five turns of user 7 and one of user 8, and a request for one page of
  the history.
\<close>

definition turn :: "nat \<Rightarrow> nat \<Rightarrow> jsstring \<Rightarrow> sender \<Rightarrow> nat \<Rightarrow> chat_row" where
  "turn i u m w t = \<lparr>row_id = i, user_id = u, goal_id = None, message = m, sender = w,
                     timestamp = t\<rparr>"

definition five_turns :: db where
  "five_turns = empty_db\<lparr>chat_messages :=
       [turn 1 7 (lit ''a'') User 10, turn 2 7 (lit ''b'') Ai 20, turn 3 7 (lit ''c'') User 30,
        turn 4 8 (lit ''x'') User 35, turn 5 7 (lit ''d'') Ai 40, turn 6 7 (lit ''e'') User 50],
     next_id := 7, clock := 51\<rparr>"






text \<open>One connection submitting several messages in a row, the store accepting each.\<close>

fun submit_all :: "socket \<Rightarrow> db \<Rightarrow> jsstring list \<Rightarrow> db" where
  "submit_all s d [] = d"
| "submit_all s d (m # ms) =
     submit_all s (fst (chat_message no_faults s d \<lparr>cm_message = Some m, cm_goalId = None\<rparr>)) ms"

text \<open>Two connections of user 7 and one of user 8, all connected.\<close>

definition alice_phone :: socket where
  "alice_phone = \<lparr>sid = 2, userId = 7, userEmail = lit ''alice@example.org''\<rparr>"

definition bob :: socket where
  "bob = \<lparr>sid = 3, userId = 8, userEmail = lit ''bob@example.org''\<rparr>"

definition three_online :: io where
  "three_online = connection (connection (connection io_empty alice) alice_phone) bob"

section \<open>Reading decimal digits back\<close>

definition digit_value :: "16 word \<Rightarrow> nat" where
  "digit_value c = unat c - 48"

definition read_nat :: "jsstring \<Rightarrow> nat" where
  "read_nat s = foldl (\<lambda>a c. 10 * a + digit_value c) 0 s"

section \<open>Facts about strings\<close>

lemma trim_empty_iff: "trim s = [] \<longleftrightarrow> (\<forall>c\<in>set s. js_whitespace c)"
proof -
  have "trim s = [] \<longleftrightarrow> dropWhile js_whitespace (rev (dropWhile js_whitespace s)) = []"
    by (simp add: trim_def)
  also have "\<dots> \<longleftrightarrow> (\<forall>c\<in>set (dropWhile js_whitespace s). js_whitespace c)"
    by (simp add: dropWhile_eq_Nil_conv)
  also have "\<dots> \<longleftrightarrow> (\<forall>c\<in>set s. js_whitespace c)"
  proof
    assume h: "\<forall>c\<in>set (dropWhile js_whitespace s). js_whitespace c"
    show "\<forall>c\<in>set s. js_whitespace c"
    proof (cases "dropWhile js_whitespace s")
      case Nil
      then show ?thesis by (simp add: dropWhile_eq_Nil_conv)
    next
      case (Cons a as)
      then have "\<not> js_whitespace a" using hd_dropWhile[of js_whitespace s] by auto
      with h Cons show ?thesis by simp
    qed
  next
    assume "\<forall>c\<in>set s. js_whitespace c"
    then show "\<forall>c\<in>set (dropWhile js_whitespace s). js_whitespace c"
      using set_dropWhileD by fastforce
  qed
  finally show ?thesis .
qed

text \<open>The decimal rendering of a number determines the number.\<close>

lemma digit_value_digit: "d < 10 \<Longrightarrow> digit_value (digit d) = d"
proof -
  assume "d < 10"
  then have "48 + d < 2 ^ LENGTH(16)" by simp
  then have "unat (digit d) = 48 + d"
    unfolding digit_def by (intro of_nat_inverse refl)
  then show ?thesis by (simp add: digit_value_def)
qed

lemma read_nat_snoc: "read_nat (s @ [c]) = 10 * read_nat s + digit_value c"
  by (simp add: read_nat_def)

lemma read_show_nat: "read_nat (show_nat n) = n"
proof (induction n rule: show_nat.induct)
  case (1 n)
  show ?case
  proof (cases "n < 10")
    case True
    then show ?thesis
      by (subst show_nat.simps) (simp add: read_nat_def digit_value_digit)
  next
    case False
    with 1 have "read_nat (show_nat (n div 10)) = n div 10" by simp
    with False show ?thesis
      by (subst show_nat.simps) (simp add: read_nat_snoc digit_value_digit)
  qed
qed

lemma show_nat_inj: "show_nat m = show_nat n \<longleftrightarrow> m = n"
  by (metis read_show_nat)

section \<open>Submitting a message\<close>

text \<open>
  C8. A \<open>chat_message\<close> whose text is empty or consists of whitespace only changes
  nothing: the store is returned as it was, no row is written, no generation timer is
  armed, and the only effect is the error event \<open>Message cannot be empty\<close> to the sending
  connection. The handler has no hold on the registry of connections, so the
  connection stays as it was. This holds whatever the store would have done.
\<close>

theorem blank_message_refused:
  assumes "msg = [] \<or> (\<forall>c\<in>set msg. js_whitespace c)"
  shows "chat_message fl s d \<lparr>cm_message = Some msg, cm_goalId = g\<rparr>
           = (d, [Emit (sid s) (ErrorEv (lit ''Message cannot be empty''))])
         \<and> persisted (snd (chat_message fl s d \<lparr>cm_message = Some msg, cm_goalId = g\<rparr>)) = []
         \<and> timers_armed (snd (chat_message fl s d \<lparr>cm_message = Some msg, cm_goalId = g\<rparr>)) = 0"
proof -
  from assms have "trim msg = []" by (auto simp: trim_empty_iff)
  then show ?thesis by (simp add: chat_message_def)
qed

text \<open>The text of three spaces, and the empty text, on a connection of user 7.\<close>

theorem blank_message_refused_witness:
  "(lit ''   '' = [] \<or> (\<forall>c\<in>set (lit ''   ''). js_whitespace c))
   \<and> chat_message no_faults alice empty_db
        \<lparr>cm_message = Some (lit ''   ''), cm_goalId = None\<rparr>
       = (empty_db, [Emit 1 (ErrorEv (lit ''Message cannot be empty''))])
   \<and> chat_message no_faults alice empty_db \<lparr>cm_message = Some [], cm_goalId = None\<rparr>
       = (empty_db, [Emit 1 (ErrorEv (lit ''Message cannot be empty''))])"
proof -
  have h: "lit ''   '' = [] \<or> (\<forall>c\<in>set (lit ''   ''). js_whitespace c)"
    by (simp add: lit_def js_whitespace_def)
  have e: "([]::jsstring) = [] \<or> (\<forall>c\<in>set ([]::jsstring). js_whitespace c)"
    by simp
  from blank_message_refused [OF h, of no_faults alice empty_db None]
    blank_message_refused [OF e, of no_faults alice empty_db None] h
  show ?thesis by (simp add: alice_def)
qed

text \<open>
  C1, as the code has it. Let the text be neither empty nor whitespace only. When the
  store accepts the INSERT, the handler writes exactly one row, of sender \<open>user\<close>, with
  the caller's id and the submitted text; only then it emits the confirmation to the
  sending connection, carrying the id and the timestamp the store gave that row; then
  it arms the generation timer. When the store rejects the INSERT, the handler writes
  nothing, emits no confirmation and sends the error event \<open>Failed to process message\<close>.
\<close>

theorem submit_persists_then_confirms:
  assumes "msg \<noteq> []" and "\<not> (\<forall>c\<in>set msg. js_whitespace c)"
  shows "(\<not> f_insert_user fl \<longrightarrow>
           (\<exists>r. snd (chat_message fl s d \<lparr>cm_message = Some msg, cm_goalId = g\<rparr>)
                   = [Persist r,
                      Emit (sid s) (ChatMessageEv (row_id r) msg User (timestamp r)),
                      SetTimeout 1000 (sid s) msg g]
                \<and> chat_messages
                     (fst (chat_message fl s d \<lparr>cm_message = Some msg, cm_goalId = g\<rparr>))
                   = chat_messages d @ [r]
                \<and> sender r = User \<and> message r = msg \<and> user_id r = userId s
                \<and> goal_id r = or_null g
                \<and> row_id r = next_id d \<and> timestamp r = clock d))
       \<and> (f_insert_user fl \<longrightarrow>
             chat_message fl s d \<lparr>cm_message = Some msg, cm_goalId = g\<rparr>
               = (d, [Emit (sid s) (ErrorEv (lit ''Failed to process message''))]))"
proof -
  from assms(2) have "trim msg \<noteq> []" by (simp add: trim_empty_iff)
  with assms(1) show ?thesis
    by (simp add: chat_message_def insert_chat_message_def Let_def)
qed

theorem submit_persists_then_confirms_witness:
  "lit ''hi'' \<noteq> [] \<and> \<not> (\<forall>c\<in>set (lit ''hi''). js_whitespace c)
   \<and> \<not> f_insert_user no_faults
   \<and> (\<exists>r. snd (chat_message no_faults alice
                 empty_db \<lparr>cm_message = Some (lit ''hi''), cm_goalId = None\<rparr>)
            = [Persist r, Emit 1 (ChatMessageEv 1 (lit ''hi'') User 0),
               SetTimeout 1000 1 (lit ''hi'') None]
          \<and> row_id r = 1 \<and> timestamp r = 0 \<and> sender r = User)"
proof -
  have h1: "lit ''hi'' \<noteq> []" by (simp add: lit_def)
  have h2: "\<not> (\<forall>c\<in>set (lit ''hi''). js_whitespace c)"
    by (simp add: lit_def js_whitespace_def)
  have h3: "\<not> f_insert_user no_faults" by (simp add: no_faults_def)
  from submit_persists_then_confirms [OF h1 h2, of no_faults alice empty_db None] h3
  obtain r where
    "snd (chat_message no_faults alice
            empty_db \<lparr>cm_message = Some (lit ''hi''), cm_goalId = None\<rparr>)
       = [Persist r, Emit 1 (ChatMessageEv (row_id r) (lit ''hi'') User (timestamp r)),
          SetTimeout 1000 1 (lit ''hi'') None]"
    and "row_id r = next_id empty_db" and "timestamp r = clock empty_db"
    and "sender r = User"
    by (auto simp: alice_def)
  then have "snd (chat_message no_faults alice
            empty_db \<lparr>cm_message = Some (lit ''hi''), cm_goalId = None\<rparr>)
       = [Persist r, Emit 1 (ChatMessageEv 1 (lit ''hi'') User 0),
          SetTimeout 1000 1 (lit ''hi'') None]
     \<and> row_id r = 1 \<and> timestamp r = 0 \<and> sender r = User"
    by (simp add: empty_db_def)
  with h1 h2 h3 show ?thesis by blast
qed

text \<open>
  C1 as stated fails when the store rejects the INSERT: for the text \<open>hi\<close> the handler
  then writes no row and emits the error event \<open>Failed to process message\<close> instead of a
  confirmation.
\<close>

theorem submit_store_rejects:
  "chat_message (no_faults\<lparr>f_insert_user := True\<rparr>) alice empty_db
      \<lparr>cm_message = Some (lit ''hi''), cm_goalId = None\<rparr>
     = (empty_db, [Emit 1 (ErrorEv (lit ''Failed to process message''))])"
  by (simp add: chat_message_def insert_chat_message_def no_faults_def trim_def lit_def
      js_whitespace_def alice_def)

section \<open>Facts about a generation run\<close>

lemma persisted_append: "persisted (xs @ ys) = persisted xs @ persisted ys"
  by (induction xs rule: persisted.induct) simp_all

lemma errors_emitted_append: "errors_emitted (xs @ ys) = errors_emitted xs @ errors_emitted ys"
  by (induction xs rule: errors_emitted.induct) simp_all

lemma chunks_emitted_append: "chunks_emitted (xs @ ys) = chunks_emitted xs @ chunks_emitted ys"
  by (induction xs rule: chunks_emitted.induct) simp_all

lemma relay_eq:
  "relay c chunks acc =
     (acc @ concat [x \<leftarrow> chunks. x \<noteq> []],
      map (\<lambda>x. Emit c (AiMessageChunkEv x False)) [x \<leftarrow> chunks. x \<noteq> []])"
  by (induction chunks arbitrary: acc) simp_all

lemma chunk_effects:
  "persisted (map (\<lambda>x. Emit c (AiMessageChunkEv x False)) xs) = []"
  "errors_emitted (map (\<lambda>x. Emit c (AiMessageChunkEv x False)) xs) = []"
  "chunks_emitted (map (\<lambda>x. Emit c (AiMessageChunkEv x False)) xs) = xs"
  by (induction xs) simp_all

lemma no_faults_simps:
  "\<not> f_insert_user no_faults" "\<not> f_history no_faults" "\<not> f_recent no_faults"
  "\<not> f_goal no_faults" "\<not> f_stats no_faults" "\<not> f_recent_goals no_faults"
  "\<not> f_insert_ai no_faults" "\<not> f_insert_fallback no_faults"
  by (simp_all add: no_faults_def)

text \<open>The prompt is built unless one of the queries before it rejects.\<close>

lemma goal_branch_error:
  "(\<exists>e. goal_branch toL fl d uid gid = Inl e) \<longleftrightarrow> f_goal fl"
  by (auto simp: goal_branch_def select_goal_def split: list.splits)

lemma profile_branch_error:
  "(\<exists>e. profile_branch fl d uid = Inl e) \<longleftrightarrow> f_stats fl \<or> f_recent_goals fl"
  by (auto simp: profile_branch_def select_stats_def select_recent_goals_def Let_def)

lemma personalizedContext_error:
  "(\<exists>e. personalizedContext toL fl d uid gid = Inl e) \<longleftrightarrow> context_query_fails fl gid"
  by (cases gid)
     (simp_all add: personalizedContext_def context_query_fails_def truthy_id_def
        goal_branch_error profile_branch_error)

lemma assemble_prompt_error:
  "(\<exists>e. assemble_prompt toL fl d uid msg gid = Inl e)
     \<longleftrightarrow> f_recent fl \<or> context_query_fails fl gid"
proof (cases "f_recent fl")
  case True
  then show ?thesis by (simp add: assemble_prompt_def select_recent_def)
next
  case False
  show ?thesis
  proof (cases "personalizedContext toL fl d uid gid")
    case (Inl e)
    then have "context_query_fails fl gid" using personalizedContext_error by blast
    with False Inl show ?thesis by (simp add: assemble_prompt_def select_recent_def)
  next
    case (Inr ctx)
    then have "\<not> context_query_fails fl gid"
      using personalizedContext_error [of toL fl d uid gid] by auto
    with False Inr show ?thesis by (simp add: assemble_prompt_def select_recent_def)
  qed
qed

lemma assemble_prompt_no_faults:
  "\<exists>p. assemble_prompt toL no_faults d uid msg gid = Inr p"
proof (cases "assemble_prompt toL no_faults d uid msg gid")
  case (Inl e)
  then have "f_recent no_faults \<or> context_query_fails no_faults gid"
    using assemble_prompt_error by blast
  then show ?thesis by (simp add: context_query_fails_def no_faults_simps split: if_splits)
next
  case (Inr p)
  then show ?thesis by blast
qed

text \<open>
  A run fails before its turn is stored exactly when a query before the prompt rejects,
  the stream throws, or the INSERT of the completed turn rejects.
\<close>

lemma generation_step_fails_iff:
  "generation_step_fails gemini toL fl s d msg gid \<longleftrightarrow>
     f_recent fl \<or> context_query_fails fl gid
     \<or> (\<exists>prompt. assemble_prompt toL fl d (userId s) msg gid = Inr prompt
           \<and> (snd (gemini prompt) = Broken \<or> f_insert_ai fl))"
proof (cases "assemble_prompt toL fl d (userId s) msg gid")
  case (Inl e)
  then have "f_recent fl \<or> context_query_fails fl gid"
    using assemble_prompt_error by blast
  with Inl show ?thesis by (simp add: generation_step_fails_def)
next
  case (Inr prompt)
  then have "\<not> (f_recent fl \<or> context_query_fails fl gid)"
    using assemble_prompt_error [of toL fl d "userId s" msg gid] by auto
  with Inr show ?thesis by (simp add: generation_step_fails_def)
qed


lemma try_generate_succeeds:
  assumes "\<not> generation_step_fails gemini toL fl s d msg gid"
  shows "\<exists>prompt chunks r.
           assemble_prompt toL fl d (userId s) msg gid = Inr prompt
         \<and> gemini prompt = (chunks, Done)
         \<and> r = \<lparr>row_id = next_id d, user_id = userId s, goal_id = or_null gid,
                 message = concat [x \<leftarrow> chunks. x \<noteq> []], sender = Ai, timestamp = clock d\<rparr>
         \<and> try_generate gemini toL fl s d msg gid =
             (Emit (sid s) (AiTypingEv True)
                # map (\<lambda>x. Emit (sid s) (AiMessageChunkEv x False)) [x \<leftarrow> chunks. x \<noteq> []]
                @ [Emit (sid s) (AiTypingEv False), Persist r,
                   Emit (sid s) (ChatMessageEv (row_id r) (message r) Ai (timestamp r))],
              Inr (d\<lparr>chat_messages := chat_messages d @ [r], next_id := Suc (next_id d),
                      clock := Suc (clock d)\<rparr>))"
proof (cases "assemble_prompt toL fl d (userId s) msg gid")
  case (Inl e)
  with assms show ?thesis by (simp add: generation_step_fails_def)
next
  case (Inr prompt)
  with assms have f: "snd (gemini prompt) \<noteq> Broken" "\<not> f_insert_ai fl"
    by (simp_all add: generation_step_fails_def)
  obtain chunks fin where g: "gemini prompt = (chunks, fin)" by (cases "gemini prompt")
  with f have "fin = Done" by (cases fin) simp_all
  with Inr g f show ?thesis
    by (simp add: try_generate_def relay_eq insert_chat_message_def Let_def)
qed

section \<open>The fallback path\<close>




section \<open>Chunks and the stored turn\<close>

text \<open>
  C3, as the code has it. In a generation run where the queries before the prompt, the
  stream and the INSERT of the completed turn all succeed, the run writes exactly one
  row, of sender \<open>ai\<close>, and its text is the concatenation, in emission order, of the chunk
  texts the run emitted.
\<close>

theorem chunks_match_completed_turn:
  assumes "\<not> generation_step_fails gemini toL fl s d msg gid"
    and "generateAIResponse gemini toL fl s d msg gid = (d', es)"
  shows "\<exists>r. persisted es = [r] \<and> message r = concat (chunks_emitted es)
           \<and> sender r = Ai \<and> user_id r = userId s
           \<and> chat_messages d' = chat_messages d @ [r]
           \<and> errors_emitted es = []"
proof -
  from try_generate_succeeds [OF assms(1)] obtain prompt chunks r where
    t: "try_generate gemini toL fl s d msg gid =
             (Emit (sid s) (AiTypingEv True)
                # map (\<lambda>x. Emit (sid s) (AiMessageChunkEv x False)) [x \<leftarrow> chunks. x \<noteq> []]
                @ [Emit (sid s) (AiTypingEv False), Persist r,
                   Emit (sid s) (ChatMessageEv (row_id r) (message r) Ai (timestamp r))],
              Inr (d\<lparr>chat_messages := chat_messages d @ [r], next_id := Suc (next_id d),
                      clock := Suc (clock d)\<rparr>))"
    and r: "r = \<lparr>row_id = next_id d, user_id = userId s, goal_id = or_null gid,
                 message = concat [x \<leftarrow> chunks. x \<noteq> []], sender = Ai, timestamp = clock d\<rparr>"
    by blast
  from t assms(2) have
    "es = Emit (sid s) (AiTypingEv True)
                # map (\<lambda>x. Emit (sid s) (AiMessageChunkEv x False)) [x \<leftarrow> chunks. x \<noteq> []]
                @ [Emit (sid s) (AiTypingEv False), Persist r,
                   Emit (sid s) (ChatMessageEv (row_id r) (message r) Ai (timestamp r))]"
    "d' = d\<lparr>chat_messages := chat_messages d @ [r], next_id := Suc (next_id d),
                      clock := Suc (clock d)\<rparr>"
    by (simp_all add: generateAIResponse_def)
  then show ?thesis using r
    by (simp add: persisted_append errors_emitted_append chunks_emitted_append chunk_effects)
qed

theorem chunks_match_completed_turn_witness:
  "\<not> generation_step_fails stream_completes show_nat no_faults alice empty_db (lit ''hi'') None
   \<and> (\<exists>r. persisted (snd (generateAIResponse stream_completes show_nat no_faults alice
                 empty_db (lit ''hi'') None)) = [r]
         \<and> message r = concat (chunks_emitted (snd (generateAIResponse stream_completes
                 show_nat no_faults alice empty_db (lit ''hi'') None))))"
proof -
  obtain p where
    p: "assemble_prompt show_nat no_faults empty_db (userId alice) (lit ''hi'') None = Inr p"
    using assemble_prompt_no_faults by blast
  then have h: "\<not> generation_step_fails stream_completes show_nat no_faults alice empty_db
      (lit ''hi'') None"
    by (simp add: generation_step_fails_def stream_completes_def no_faults_simps)
  have e: "generateAIResponse stream_completes show_nat no_faults alice empty_db (lit ''hi'') None
      = (fst (generateAIResponse stream_completes show_nat no_faults alice empty_db
                (lit ''hi'') None),
         snd (generateAIResponse stream_completes show_nat no_faults alice empty_db
                (lit ''hi'') None))"
    by simp
  from chunks_match_completed_turn [OF h e] h show ?thesis by blast
qed

text \<open>
  C3 as stated fails on the fallback path: when the stream throws after the chunk
  \<open>Hel\<close>, that chunk has been emitted, and the turn the run stores is the fallback text.
\<close>

theorem chunks_differ_from_fallback_turn:
  "chunks_emitted (snd (generateAIResponse stream_breaks show_nat no_faults alice empty_db
                          (lit ''hi'') None)) = [lit ''Hel'']
   \<and> map message (persisted (snd (generateAIResponse stream_breaks show_nat no_faults alice
                          empty_db (lit ''hi'') None))) = [fallbackResponse]
   \<and> concat [lit ''Hel''] \<noteq> fallbackResponse"
proof -
  obtain p where
    p: "assemble_prompt show_nat no_faults empty_db (userId alice) (lit ''hi'') None = Inr p"
    using assemble_prompt_no_faults by blast
  have "generateAIResponse stream_breaks show_nat no_faults alice empty_db (lit ''hi'') None
      = (empty_db\<lparr>chat_messages := [\<lparr>row_id = 1, user_id = 7, goal_id = None,
             message = fallbackResponse, sender = Ai, timestamp = 0\<rparr>],
           next_id := 2, clock := 1\<rparr>,
         [Emit 1 (AiTypingEv True), Emit 1 (AiMessageChunkEv (lit ''Hel'') False),
          Persist \<lparr>row_id = 1, user_id = 7, goal_id = None,
             message = fallbackResponse, sender = Ai, timestamp = 0\<rparr>,
          Emit 1 (AiTypingEv False), Emit 1 (ChatMessageEv 1 fallbackResponse Ai 0)])"
    using p
    by (simp add: generateAIResponse_def try_generate_def stream_breaks_def alice_def
        insert_chat_message_def no_faults_simps empty_db_def or_null_def truthy_id_def lit_def
        Let_def)
  moreover have "concat [lit ''Hel''] \<noteq> fallbackResponse"
    by (simp add: fallbackResponse_def lit_def)
  ultimately show ?thesis by simp
qed

section \<open>The history page\<close>

text \<open>The statement the handler builds selects the caller's turns.\<close>

lemma history_statement_eq:
  "history_statement s g l k =
     (case g of
        Some n \<Rightarrow> if n \<noteq> 0 then (True, [int (userId s), int n, l, k])
                   else (False, [int (userId s), l, k])
      | None \<Rightarrow> (False, [int (userId s), l, k]))"
  by (simp add: history_statement_def Let_def split: option.split)

lemma select_history_eq:
  "select_history fails d (history_statement s g l k) =
     (if fails then Inl DbError
      else limit_offset l k (order_by_timestamp_desc (caller_turns d (userId s) g)))"
proof -
  have "[r \<leftarrow> chat_messages d. int (user_id r) = int (userId s)
           \<and> (case goal_id r of None \<Rightarrow> False | Some h \<Rightarrow> int h = int n)]
        = [r \<leftarrow> chat_messages d. user_id r = userId s \<and> goal_id r = Some n]" for n
    by (rule filter_cong) (auto split: option.splits)
  then show ?thesis
    by (simp add: history_statement_eq caller_turns_def truthy_id_def split: option.split)
qed

lemma page_sorted:
  "sorted (map timestamp (rev (take n (drop k (order_by_timestamp_desc rs)))))"
proof -
  have "sorted (map timestamp (sort_key timestamp rs))" by (rule sorted_sort_key)
  then have "sorted (drop a (take b (map timestamp (sort_key timestamp rs))))" for a b
    by (intro sorted_wrt_drop sorted_wrt_take)
  then show ?thesis
    by (simp add: order_by_timestamp_desc_def rev_take rev_drop drop_map take_map)
qed

lemma caller_turns_eq:
  "caller_turns d uid g =
     [r \<leftarrow> chat_messages d.
        user_id r = uid \<and> (case g of None \<Rightarrow> True | Some n \<Rightarrow> n = 0 \<or> goal_id r = Some n)]"
  unfolding caller_turns_def
  by (rule filter_cong) (auto simp: truthy_id_def split: option.splits)

lemma to_history_row_eq:
  "to_history_row =
     (\<lambda>r. \<lparr>h_id = row_id r, h_message = message r, h_sender = sender r,
            h_timestamp = timestamp r, h_goal_id = goal_id r\<rparr>)"
  by (rule ext) (simp add: to_history_row_def)

text \<open>The answer of the handler, case by case.\<close>

lemma get_chat_history_eq:
  "get_chat_history fl s d \<lparr>hr_goalId = g, hr_limit = lo, hr_offset = ko\<rparr> =
     (let L = (case lo of None \<Rightarrow> 50 | Some l \<Rightarrow> l);
          K = (case ko of None \<Rightarrow> 0 | Some k \<Rightarrow> k);
          page = take (nat L) (drop (nat K) (order_by_timestamp_desc (caller_turns d (userId s) g)))
      in if f_history fl \<or> L < 0 \<or> K < 0
         then [Emit (sid s) (ErrorEv (lit ''Failed to load chat history''))]
         else [Emit (sid s) (ChatHistoryEv (map to_history_row (rev page))
                              (int (length page) = L))])"
  by (simp add: get_chat_history_def select_history_eq limit_offset_def limit_of_def
      offset_of_def Let_def)

lemma five_sorted:
  "order_by_timestamp_desc (caller_turns five_turns 7 None) =
     [turn 6 7 (lit ''e'') User 50, turn 5 7 (lit ''d'') Ai 40, turn 3 7 (lit ''c'') User 30,
      turn 2 7 (lit ''b'') Ai 20, turn 1 7 (lit ''a'') User 10]"
  by (simp add: order_by_timestamp_desc_def caller_turns_def five_turns_def empty_db_def
      turn_def truthy_id_def)

text \<open>
  C5, as the code has it. Take a \<open>get_chat_history\<close> call with goal id \<open>g\<close>, limit
  \<open>lo\<close> and offset \<open>ko\<close>, each possibly absent. Let \<open>L\<close> be the limit, 50 when absent,
  and \<open>K\<close> the offset, 0 when absent. Let \<open>turns\<close> be the caller's turns, those of goal
  \<open>g\<close> only when \<open>g\<close> is given and is not 0 (\<open>if (goalId)\<close>: an id of 0 counts as
  absent and nothing is filtered). Let \<open>page\<close> be those turns sorted by timestamp
  descending, without the first \<open>K\<close>, cut to \<open>L\<close>, and reversed. When the store answers
  the query and \<open>L\<close> and \<open>K\<close> are not negative, the handler sends the calling connection
  one history event: its messages are the rows of \<open>page\<close>, each with the id, text,
  sender, timestamp and goal id of its turn, and \<open>hasMore\<close> is true exactly when their
  number is \<open>L\<close>. Whenever the handler sends a history event at all, it is that one,
  and the timestamps of its messages ascend.
\<close>

theorem history_page:
  assumes "L = (case lo of None \<Rightarrow> 50 | Some l \<Rightarrow> l)"
    and "K = (case ko of None \<Rightarrow> 0 | Some k \<Rightarrow> k)"
    and "turns = [r \<leftarrow> chat_messages d.
                    user_id r = userId s
                    \<and> (case g of None \<Rightarrow> True | Some n \<Rightarrow> n = 0 \<or> goal_id r = Some n)]"
    and "page = rev (take (nat L) (drop (nat K) (rev (sort_key timestamp turns))))"
    and "rows = map (\<lambda>r. \<lparr>h_id = row_id r, h_message = message r, h_sender = sender r,
                           h_timestamp = timestamp r, h_goal_id = goal_id r\<rparr>) page"
  shows "(\<not> f_history fl \<and> 0 \<le> L \<and> 0 \<le> K \<longrightarrow>
            get_chat_history fl s d \<lparr>hr_goalId = g, hr_limit = lo, hr_offset = ko\<rparr>
              = [Emit (sid s) (ChatHistoryEv rows (int (length rows) = L))])
       \<and> (get_chat_history fl s d \<lparr>hr_goalId = g, hr_limit = lo, hr_offset = ko\<rparr>
              = [Emit c (ChatHistoryEv msgs hasMore)] \<longrightarrow>
            c = sid s \<and> msgs = rows \<and> (hasMore \<longleftrightarrow> int (length msgs) = L)
            \<and> 0 \<le> L \<and> 0 \<le> K)
       \<and> sorted (map h_timestamp rows)
       \<and> length rows \<le> nat L"
proof -
  let ?page = "take (nat L) (drop (nat K) (order_by_timestamp_desc (caller_turns d (userId s) g)))"
  have t: "caller_turns d (userId s) g = turns"
    by (simp add: caller_turns_eq assms(3))
  have p: "rev ?page = page"
    by (simp add: t assms(4) order_by_timestamp_desc_def)
  have r: "map to_history_row (rev ?page) = rows"
    by (simp only: p assms(5) to_history_row_eq)
  have n: "length ?page = length rows"
    using r by (metis length_map length_rev)
  have e: "get_chat_history fl s d \<lparr>hr_goalId = g, hr_limit = lo, hr_offset = ko\<rparr> =
     (if f_history fl \<or> L < 0 \<or> K < 0
      then [Emit (sid s) (ErrorEv (lit ''Failed to load chat history''))]
      else [Emit (sid s) (ChatHistoryEv rows (int (length rows) = L))])"
    unfolding get_chat_history_eq Let_def assms(1) [symmetric] assms(2) [symmetric] r n ..
  have "sorted (map timestamp (rev ?page))" by (rule page_sorted)
  then have s: "sorted (map h_timestamp rows)"
    by (simp add: p assms(5) comp_def)
  have l: "length rows \<le> nat L"
    using n by (metis length_take min.cobounded2)
  from e s l show ?thesis by (auto split: if_splits)
qed

text \<open>
  Five turns of the caller, written at times 10 to 50, and one of another user: a limit
  of 2 gives the two newest, oldest first, and \<open>hasMore\<close>; a limit of 10 gives all
  five and no \<open>hasMore\<close>; so does a call without limit and offset, by the defaults 50
  and 0; a limit of 2 and an offset of 3 give the two oldest. The texts are the code
  units of \<open>a\<close> to \<open>e\<close>.
\<close>

theorem history_page_witness:
  "get_chat_history no_faults alice five_turns
       \<lparr>hr_goalId = None, hr_limit = Some 2, hr_offset = Some 0\<rparr>
     = [Emit 1 (ChatHistoryEv
          [\<lparr>h_id = 5, h_message = [0x64], h_sender = Ai, h_timestamp = 40, h_goal_id = None\<rparr>,
           \<lparr>h_id = 6, h_message = [0x65], h_sender = User, h_timestamp = 50, h_goal_id = None\<rparr>]
          True)]
   \<and> get_chat_history no_faults alice five_turns
       \<lparr>hr_goalId = None, hr_limit = Some 10, hr_offset = Some 0\<rparr>
     = [Emit 1 (ChatHistoryEv
          [\<lparr>h_id = 1, h_message = [0x61], h_sender = User, h_timestamp = 10, h_goal_id = None\<rparr>,
           \<lparr>h_id = 2, h_message = [0x62], h_sender = Ai, h_timestamp = 20, h_goal_id = None\<rparr>,
           \<lparr>h_id = 3, h_message = [0x63], h_sender = User, h_timestamp = 30, h_goal_id = None\<rparr>,
           \<lparr>h_id = 5, h_message = [0x64], h_sender = Ai, h_timestamp = 40, h_goal_id = None\<rparr>,
           \<lparr>h_id = 6, h_message = [0x65], h_sender = User, h_timestamp = 50, h_goal_id = None\<rparr>]
          False)]
   \<and> get_chat_history no_faults alice five_turns
       \<lparr>hr_goalId = None, hr_limit = None, hr_offset = None\<rparr>
     = [Emit 1 (ChatHistoryEv
          [\<lparr>h_id = 1, h_message = [0x61], h_sender = User, h_timestamp = 10, h_goal_id = None\<rparr>,
           \<lparr>h_id = 2, h_message = [0x62], h_sender = Ai, h_timestamp = 20, h_goal_id = None\<rparr>,
           \<lparr>h_id = 3, h_message = [0x63], h_sender = User, h_timestamp = 30, h_goal_id = None\<rparr>,
           \<lparr>h_id = 5, h_message = [0x64], h_sender = Ai, h_timestamp = 40, h_goal_id = None\<rparr>,
           \<lparr>h_id = 6, h_message = [0x65], h_sender = User, h_timestamp = 50, h_goal_id = None\<rparr>]
          False)]
   \<and> get_chat_history no_faults alice five_turns
       \<lparr>hr_goalId = None, hr_limit = Some 2, hr_offset = Some 3\<rparr>
     = [Emit 1 (ChatHistoryEv
          [\<lparr>h_id = 1, h_message = [0x61], h_sender = User, h_timestamp = 10, h_goal_id = None\<rparr>,
           \<lparr>h_id = 2, h_message = [0x62], h_sender = Ai, h_timestamp = 20, h_goal_id = None\<rparr>]
          True)]"
proof -
  have f: "\<not> f_history no_faults" by (simp add: no_faults_def)
  have u: "userId alice = 7" "sid alice = 1" by (simp_all add: alice_def)
  have t: "[r \<leftarrow> chat_messages five_turns. user_id r = 7]
      = [turn 1 7 (lit ''a'') User 10, turn 2 7 (lit ''b'') Ai 20, turn 3 7 (lit ''c'') User 30,
         turn 5 7 (lit ''d'') Ai 40, turn 6 7 (lit ''e'') User 50]"
    by (simp add: five_turns_def empty_db_def turn_def)
  have a: "get_chat_history no_faults alice five_turns
       \<lparr>hr_goalId = None, hr_limit = Some 2, hr_offset = Some 0\<rparr>
     = [Emit 1 (ChatHistoryEv
          [\<lparr>h_id = 5, h_message = [0x64], h_sender = Ai, h_timestamp = 40, h_goal_id = None\<rparr>,
           \<lparr>h_id = 6, h_message = [0x65], h_sender = User, h_timestamp = 50, h_goal_id = None\<rparr>]
          True)]"
    using history_page [OF refl refl refl refl refl,
        where fl = no_faults and lo = "Some 2"
        and ko = "Some 0" and s = alice and d = five_turns and g = None, THEN conjunct1] f
    by (simp add: u t turn_def lit_def)
  have b: "get_chat_history no_faults alice five_turns
       \<lparr>hr_goalId = None, hr_limit = Some 10, hr_offset = Some 0\<rparr>
     = [Emit 1 (ChatHistoryEv
          [\<lparr>h_id = 1, h_message = [0x61], h_sender = User, h_timestamp = 10, h_goal_id = None\<rparr>,
           \<lparr>h_id = 2, h_message = [0x62], h_sender = Ai, h_timestamp = 20, h_goal_id = None\<rparr>,
           \<lparr>h_id = 3, h_message = [0x63], h_sender = User, h_timestamp = 30, h_goal_id = None\<rparr>,
           \<lparr>h_id = 5, h_message = [0x64], h_sender = Ai, h_timestamp = 40, h_goal_id = None\<rparr>,
           \<lparr>h_id = 6, h_message = [0x65], h_sender = User, h_timestamp = 50, h_goal_id = None\<rparr>]
          False)]"
    using history_page [OF refl refl refl refl refl,
        where fl = no_faults and lo = "Some 10"
        and ko = "Some 0" and s = alice and d = five_turns and g = None, THEN conjunct1] f
    by (simp add: u t turn_def lit_def)
  have c: "get_chat_history no_faults alice five_turns
       \<lparr>hr_goalId = None, hr_limit = None, hr_offset = None\<rparr>
     = [Emit 1 (ChatHistoryEv
          [\<lparr>h_id = 1, h_message = [0x61], h_sender = User, h_timestamp = 10, h_goal_id = None\<rparr>,
           \<lparr>h_id = 2, h_message = [0x62], h_sender = Ai, h_timestamp = 20, h_goal_id = None\<rparr>,
           \<lparr>h_id = 3, h_message = [0x63], h_sender = User, h_timestamp = 30, h_goal_id = None\<rparr>,
           \<lparr>h_id = 5, h_message = [0x64], h_sender = Ai, h_timestamp = 40, h_goal_id = None\<rparr>,
           \<lparr>h_id = 6, h_message = [0x65], h_sender = User, h_timestamp = 50, h_goal_id = None\<rparr>]
          False)]"
    using history_page [OF refl refl refl refl refl,
        where fl = no_faults and lo = None
        and ko = None and s = alice and d = five_turns and g = None, THEN conjunct1] f
    by (simp add: u t turn_def lit_def)
  have e: "get_chat_history no_faults alice five_turns
       \<lparr>hr_goalId = None, hr_limit = Some 2, hr_offset = Some 3\<rparr>
     = [Emit 1 (ChatHistoryEv
          [\<lparr>h_id = 1, h_message = [0x61], h_sender = User, h_timestamp = 10, h_goal_id = None\<rparr>,
           \<lparr>h_id = 2, h_message = [0x62], h_sender = Ai, h_timestamp = 20, h_goal_id = None\<rparr>]
          True)]"
    using history_page [OF refl refl refl refl refl,
        where fl = no_faults and lo = "Some 2"
        and ko = "Some 3" and s = alice and d = five_turns and g = None, THEN conjunct1] f
    by (simp add: u t turn_def lit_def)
  from a b c e show ?thesis by blast
qed

text \<open>
  C5 as stated fails for a goal id of 0: the handler takes it for absent and filters
  nothing, so the call is answered with turns that are not of goal 0 (these have no
  goal at all).
\<close>

theorem goal_zero_is_not_filtered:
  "get_chat_history no_faults alice five_turns
       \<lparr>hr_goalId = Some 0, hr_limit = Some 2, hr_offset = Some 0\<rparr>
     = [Emit 1 (ChatHistoryEv
          [\<lparr>h_id = 5, h_message = [0x64], h_sender = Ai, h_timestamp = 40, h_goal_id = None\<rparr>,
           \<lparr>h_id = 6, h_message = [0x65], h_sender = User, h_timestamp = 50, h_goal_id = None\<rparr>]
          True)]"
  by (simp add: get_chat_history_def history_statement_def limit_of_def offset_of_def
      limit_offset_def order_by_timestamp_desc_def to_history_row_def no_faults_def alice_def
      five_turns_def empty_db_def turn_def lit_def Let_def)

section \<open>Limit and offset\<close>




section \<open>Typing notices\<close>

text \<open>
  Rooms of different users have different names, so a user's room holds that user's
  connections and no others.
\<close>

lemma user_room_inj: "user_room u = user_room v \<longleftrightarrow> u = v"
  by (simp add: user_room_def show_nat_inj)

lemma io_ok_empty: "io_ok io_empty"
  by (simp add: io_ok_def io_empty_def)

lemma io_ok_connection:
  "io_ok i \<Longrightarrow> sid s \<notin> sid ` set (sockets i) \<Longrightarrow> io_ok (connection i s)"
  by (simp add: io_ok_def connection_def)

lemma io_ok_disconnect: "io_ok i \<Longrightarrow> io_ok (disconnect i s)"
  by (auto simp: io_ok_def disconnect_def distinct_map_filter filter_map comp_def)

lemma socket_to_user_room:
  assumes "io_ok i"
  shows "socket_to i s (user_room u) = [t \<leftarrow> sockets i. userId t = u \<and> sid t \<noteq> sid s]"
proof -
  have "(sid t, user_room u) \<in> set (rooms i) \<longleftrightarrow> userId t = u" if "t \<in> set (sockets i)" for t
  proof
    assume "(sid t, user_room u) \<in> set (rooms i)"
    with assms obtain t' where t': "t' \<in> set (sockets i)" "sid t' = sid t"
      "user_room (userId t') = user_room u"
      by (auto simp: io_ok_def)
    from assms have "inj_on sid (set (sockets i))" by (simp add: io_ok_def distinct_map)
    with t' that have "t' = t" by (auto dest: inj_onD)
    with t' show "userId t = u" by (simp add: user_room_inj)
  next
    assume "userId t = u"
    with assms that show "(sid t, user_room u) \<in> set (rooms i)"
      by (force simp: io_ok_def)
  qed
  then show ?thesis
    unfolding socket_to_def by (intro filter_cong) auto
qed

lemma three_online_ok: "io_ok three_online"
  unfolding three_online_def
  by (intro io_ok_connection io_ok_empty)
     (simp_all add: connection_def io_empty_def alice_def alice_phone_def bob_def)

lemma three_online_sockets: "sockets three_online = [alice, alice_phone, bob]"
  by (simp add: three_online_def connection_def io_empty_def)

text \<open>
  C9, as the code has it. In a registry built by the connection handler, a \<open>typing\<close>
  event writes nothing to the store, and a connected connection receives the
  \<open>user_typing\<close> notice exactly when it belongs to the sender's user and is not the
  sending connection itself: the sender's other connections receive it, the sender does
  not, and connections of other users do not.
\<close>

theorem typing_reaches_other_connections:
  assumes "io_ok i" and "s \<in> set (sockets i)" and "t \<in> set (sockets i)"
  shows "(Emit (sid t) ev \<in> set (typing i s isTyping) \<longleftrightarrow>
            ev = UserTypingEv (userId s) isTyping \<and> userId t = userId s \<and> sid t \<noteq> sid s)
         \<and> persisted (typing i s isTyping) = []"
proof -
  have m: "typing i s isTyping =
      map (\<lambda>t. Emit (sid t) (UserTypingEv (userId s) isTyping))
        [t \<leftarrow> sockets i. userId t = userId s \<and> sid t \<noteq> sid s]"
    by (simp add: typing_def socket_to_user_room [OF assms(1)])
  have p: "persisted (map (\<lambda>t. Emit (sid t) (UserTypingEv u b)) ts) = []" for u b ts
    by (induction ts) simp_all
  from assms(1) have inj: "inj_on sid (set (sockets i))" by (simp add: io_ok_def distinct_map)
  have "Emit (sid t) ev \<in> set (typing i s isTyping) \<longleftrightarrow>
            ev = UserTypingEv (userId s) isTyping \<and> userId t = userId s \<and> sid t \<noteq> sid s"
  proof
    assume "Emit (sid t) ev \<in> set (typing i s isTyping)"
    then obtain t' where t': "t' \<in> set (sockets i)" "userId t' = userId s" "sid t' \<noteq> sid s"
      "sid t' = sid t" "ev = UserTypingEv (userId s) isTyping"
      by (auto simp: m)
    with inj assms(3) have "t' = t" by (auto dest: inj_onD)
    with t' show "ev = UserTypingEv (userId s) isTyping \<and> userId t = userId s \<and> sid t \<noteq> sid s"
      by simp
  next
    assume "ev = UserTypingEv (userId s) isTyping \<and> userId t = userId s \<and> sid t \<noteq> sid s"
    with assms(3) show "Emit (sid t) ev \<in> set (typing i s isTyping)"
      by (auto simp: m)
  qed
  with p m show ?thesis by simp
qed

theorem typing_reaches_other_connections_witness:
  "io_ok three_online \<and> alice \<in> set (sockets three_online)
   \<and> alice_phone \<in> set (sockets three_online) \<and> bob \<in> set (sockets three_online)
   \<and> Emit (sid alice_phone) (UserTypingEv (userId alice) True)
        \<in> set (typing three_online alice True)
   \<and> Emit (sid bob) (UserTypingEv (userId alice) True) \<notin> set (typing three_online alice True)"
proof -
  have a: "alice \<in> set (sockets three_online)" and b: "alice_phone \<in> set (sockets three_online)"
    and c: "bob \<in> set (sockets three_online)"
    by (simp_all add: three_online_sockets)
  from typing_reaches_other_connections [OF three_online_ok a b,
      of "UserTypingEv (userId alice) True" True]
  have 1: "Emit (sid alice_phone) (UserTypingEv (userId alice) True)
        \<in> set (typing three_online alice True)"
    by (simp add: alice_def alice_phone_def)
  from typing_reaches_other_connections [OF three_online_ok a c,
      of "UserTypingEv (userId alice) True" True]
  have 2: "Emit (sid bob) (UserTypingEv (userId alice) True) \<notin> set (typing three_online alice True)"
    by (simp add: alice_def bob_def)
  from three_online_ok a b c 1 2 show ?thesis by simp
qed

text \<open>
  C9 as stated fails for the sender: of the two connections of user 7, only the one
  that did not send the event receives the notice.
\<close>

theorem typing_skips_the_sender:
  "typing three_online alice True = [Emit 2 (UserTypingEv 7 True)]"
  by (simp add: typing_def socket_to_user_room [OF three_online_ok] three_online_sockets
      alice_def alice_phone_def bob_def)

section \<open>Context of another user's goal\<close>












section \<open>The conversational memory\<close>

lemma five_recent:
  "select_recent False five_turns 7
     = Inr [(lit ''e'', User), (lit ''d'', Ai), (lit ''c'', User), (lit ''b'', Ai),
            (lit ''a'', User)]"
  by (simp add: select_recent_def recent_rows_def order_by_timestamp_desc_def five_turns_def
      empty_db_def turn_def)

text \<open>
  C7 at a store with five turns of user 7, written at times 10 to 50. The memory is
  the caller's most recent turns whatever their goal, but the query returns them newest
  first and the prompt renders them in that order: the turn of time 50 comes first and
  the turn of time 10 last, directly before the new user message.
\<close>

theorem memory_rendered_newest_first:
  "select_recent (f_recent no_faults) five_turns 7
     = Inr [(lit ''e'', User), (lit ''d'', Ai), (lit ''c'', User), (lit ''b'', Ai),
            (lit ''a'', User)]
   \<and> conversationHistory (recentMessages
        [(lit ''e'', User), (lit ''d'', Ai), (lit ''c'', User), (lit ''b'', Ai),
         (lit ''a'', User)])
     = lit ''User: e\<newline>Assistant: d\<newline>User: c\<newline>Assistant: b\<newline>User: a''
   \<and> assemble_prompt show_nat no_faults five_turns 7 (lit ''hi'') None
     = Inr (systemPrompt
            @ lit (''\<newline>\<newline>User Learning Profile:\<newline>- Total Goals: 0 (0 active, 0 completed)'' @
                   ''\<newline>- Milestone Progress: 0/0 completed'' @
                   ''\<newline>- Chat History: 0 messages exchanged'')
            @ lit ''\<newline>\<newline>Previous conversation:\<newline>''
            @ lit ''User: e\<newline>Assistant: d\<newline>User: c\<newline>Assistant: b\<newline>User: a''
            @ lit ''\<newline>\<newline>User: hi'')"
proof -
  have c: "conversationHistory (recentMessages
        [(lit ''e'', User), (lit ''d'', Ai), (lit ''c'', User), (lit ''b'', Ai),
         (lit ''a'', User)])
     = lit ''User: e\<newline>Assistant: d\<newline>User: c\<newline>Assistant: b\<newline>User: a''"
    by (simp add: conversationHistory_def history_lines_def recentMessages_def slice_last_def
        lit_def)
  have p: "personalizedContext show_nat no_faults five_turns 7 None
     = Inr (lit (''\<newline>\<newline>User Learning Profile:\<newline>- Total Goals: 0 (0 active, 0 completed)'' @
                   ''\<newline>- Milestone Progress: 0/0 completed'' @
                   ''\<newline>- Chat History: 0 messages exchanged''))"
    by (simp add: personalizedContext_def profile_branch_def select_stats_def
        select_recent_goals_def no_faults_def five_turns_def empty_db_def profile_context_def
        count_distinct_def show_nat.simps digit_def lit_def)
  have f: "f_recent no_faults = False" by (simp add: no_faults_def)
  have u: "lit ''\<newline>\<newline>User: '' @ lit ''hi'' = lit ''\<newline>\<newline>User: hi''"
    by (simp add: lit_def)
  show ?thesis
    by (simp add: assemble_prompt_def f five_recent c p fullPrompt_def u)
qed

section \<open>The current turn in the memory\<close>

lemma join_contains: "x \<in> set xs \<Longrightarrow> \<exists>a b. join sep xs = a @ x @ b"
proof (induction sep xs rule: join.induct)
  case (1 sep)
  then show ?case by simp
next
  case (2 sep y)
  then have "join sep [y] = [] @ x @ []" by simp
  then show ?case by blast
next
  case (3 sep y z zs)
  show ?case
  proof (cases "x = y")
    case True
    then have "join sep (y # z # zs) = [] @ x @ (sep @ join sep (z # zs))" by simp
    then show ?thesis by blast
  next
    case False
    with 3 obtain a b where "join sep (z # zs) = a @ x @ b" by auto
    then have "join sep (y # z # zs) = (y @ sep @ a) @ x @ b" by simp
    then show ?thesis by blast
  qed
qed

lemma order_desc_set: "set (order_by_timestamp_desc rs) = set rs"
  by (simp add: order_by_timestamp_desc_def)

lemma order_desc_filter_length:
  "length (filter P (order_by_timestamp_desc rs)) = length (filter P rs)"
  by (simp add: order_by_timestamp_desc_def filter_sort rev_filter [symmetric])

lemma order_desc_distinct:
  "distinct (map timestamp rs) \<Longrightarrow> distinct (map timestamp (order_by_timestamp_desc rs))"
  by (simp add: distinct_map order_by_timestamp_desc_def)

lemma order_desc_sorted:
  "sorted_wrt (\<lambda>a b. timestamp b \<le> timestamp a) (order_by_timestamp_desc rs)"
proof -
  have "sorted (map timestamp (sort_key timestamp rs))" by (rule sorted_sort_key)
  then have "sorted_wrt (\<lambda>a b. timestamp a \<le> timestamp b) (sort_key timestamp rs)"
    by (simp add: sorted_map)
  then show ?thesis
    by (simp add: order_by_timestamp_desc_def sorted_wrt_rev)
qed

text \<open>A row with fewer than n newer rows is among the n newest.\<close>

lemma among_newest:
  assumes "r \<in> set rs" and "distinct (map timestamp rs)"
    and "length [x \<leftarrow> rs. timestamp r < timestamp x] < n"
  shows "r \<in> set (take n (order_by_timestamp_desc rs))"
proof -
  let ?ys = "order_by_timestamp_desc rs"
  from assms(1) have "r \<in> set ?ys" by (simp add: order_desc_set)
  then obtain as bs where ys: "?ys = as @ r # bs" by (auto dest: split_list)
  have d: "distinct (map timestamp ?ys)"
    using assms(2) by (rule order_desc_distinct)
  have "timestamp r < timestamp a" if "a \<in> set as" for a
  proof -
    from order_desc_sorted [of rs] ys that have "timestamp r \<le> timestamp a"
      by (simp add: sorted_wrt_append)
    moreover have "timestamp a \<noteq> timestamp r"
    proof
      assume "timestamp a = timestamp r"
      with that have "timestamp r \<in> timestamp ` set as" by (metis imageI)
      with d ys show False by simp
    qed
    ultimately show ?thesis by simp
  qed
  then have "[x \<leftarrow> as. timestamp r < timestamp x] = as" by (simp add: filter_id_conv)
  then have "length as \<le> length [x \<leftarrow> ?ys. timestamp r < timestamp x]"
    by (simp add: ys)
  also have "\<dots> = length [x \<leftarrow> rs. timestamp r < timestamp x]"
    by (rule order_desc_filter_length)
  finally have "length as < n" using assms(3) by simp
  then obtain k where "n - length as = Suc k" by (cases "n - length as") simp_all
  then show ?thesis by (simp add: ys)
qed

text \<open>The store stays as its inserts leave it.\<close>

lemma db_ok_insert:
  assumes "db_ok d" and "insert_chat_message f d uid gid msg who = Inr (d', r)"
  shows "db_ok d'"
proof -
  from assms(2) have d': "d' = d\<lparr>chat_messages := chat_messages d @
        [\<lparr>row_id = next_id d, user_id = uid, goal_id = gid, message = msg,
                     sender = who, timestamp = clock d\<rparr>],
        next_id := Suc (next_id d), clock := Suc (clock d)\<rparr>"
    by (auto simp: insert_chat_message_def Let_def split: if_splits)
  from assms(1) have "\<forall>x\<in>set (chat_messages d). row_id x < next_id d \<and> timestamp x < clock d"
    and "distinct (map timestamp (chat_messages d))"
    by (simp_all add: db_ok_def list_all_iff)
  then show ?thesis
    unfolding d' by (auto simp: db_ok_def list_all_iff less_Suc_eq)
qed

lemma chat_message_persists:
  assumes "chat_message fl s d \<lparr>cm_message = Some msg, cm_goalId = g\<rparr> = (d1, Persist r # es)"
  shows "insert_chat_message False d (userId s) (or_null g) msg User = Inr (d1, r)"
  using assms
  by (auto simp: chat_message_def insert_chat_message_def Let_def split: if_splits)

lemma db_ok_chat_message:
  assumes "db_ok d" and "chat_message fl s d dat = (d1, es)"
  shows "db_ok d1"
proof (cases "cm_message dat")
  case None
  with assms show ?thesis by (simp add: chat_message_def)
next
  case (Some msg)
  show ?thesis
  proof (cases "insert_chat_message (f_insert_user fl) d (userId s) (or_null (cm_goalId dat))
                  msg User")
    case (Inl e)
    with Some assms show ?thesis by (auto simp: chat_message_def split: if_splits)
  next
    case (Inr p)
    obtain d' r where p: "p = (d', r)" by (cases p)
    with Inr assms(1) have "db_ok d'" by (auto intro: db_ok_insert)
    with Some Inr p assms show ?thesis by (auto simp: chat_message_def split: if_splits)
  qed
qed

lemma user_line: "lit ''User'' @ lit '': '' @ msg = lit ''User: '' @ msg"
  by (simp add: lit_def)

text \<open>
  C10, as the code has it. Let a \<open>chat_message\<close> have persisted the row \<open>r\<close>, and
  let the memory be fetched from a store that still holds \<open>r\<close> and holds fewer than ten
  turns of the caller newer than \<open>r\<close> (as the store does that the submit left). Then
  \<open>r\<close> is among the at most ten rows of the memory, at most 9 of which are older than
  \<open>r\<close>; and every prompt assembled from that store contains the text of the message
  twice: as a line \<open>User: text\<close> inside the rendered conversation, and as the new user
  message at the end.
\<close>

theorem current_turn_in_memory:
  assumes "chat_message fl s d \<lparr>cm_message = Some msg, cm_goalId = g\<rparr> = (d1, Persist r # es)"
    and "db_ok d2"
    and "r \<in> set (chat_messages d2)"
    and "length [x \<leftarrow> chat_messages d2. user_id x = userId s \<and> timestamp r < timestamp x] < 10"
  shows "r \<in> set (recent_rows d2 (userId s))
       \<and> length [x \<leftarrow> recent_rows d2 (userId s). timestamp x < timestamp r] \<le> 9
       \<and> lit ''User: '' @ msg
           \<in> set (history_lines (recentMessages
                     (map (\<lambda>x. (message x, sender x)) (recent_rows d2 (userId s)))))
       \<and> (\<forall>p. assemble_prompt toL fl' d2 (userId s) msg g = Inr p \<longrightarrow>
             (\<exists>ctx a b. p = systemPrompt @ ctx @ lit ''\<newline>\<newline>Previous conversation:\<newline>''
                            @ (a @ (lit ''User: '' @ msg) @ b)
                            @ lit ''\<newline>\<newline>User: '' @ msg))"
proof -
  let ?own = "[x \<leftarrow> chat_messages d2. user_id x = userId s]"
  let ?rec = "recent_rows d2 (userId s)"
  from chat_message_persists [OF assms(1)]
  have r: "user_id r = userId s" "message r = msg" "sender r = User"
    by (auto simp: insert_chat_message_def Let_def)
  from assms(3) r have own: "r \<in> set ?own" by simp
  from assms(2) have dist: "distinct (map timestamp ?own)"
    by (simp add: db_ok_def distinct_map_filter)
  have few: "length [x \<leftarrow> ?own. timestamp r < timestamp x] < 10"
    using assms(4) by simp
  from among_newest [OF own dist few] have 1: "r \<in> set ?rec"
    by (simp add: recent_rows_def)
  have len: "length ?rec \<le> 10" by (simp add: recent_rows_def)
  have 2: "length [x \<leftarrow> ?rec. timestamp x < timestamp r] \<le> 9"
  proof -
    from 1 have "r \<in> set [x \<leftarrow> ?rec. \<not> timestamp x < timestamp r]" by simp
    then have "0 < length [x \<leftarrow> ?rec. \<not> timestamp x < timestamp r]"
      by (metis length_pos_if_in_set)
    moreover have "length [x \<leftarrow> ?rec. timestamp x < timestamp r]
        + length [x \<leftarrow> ?rec. \<not> timestamp x < timestamp r] = length ?rec"
      by (rule sum_length_filter_compl)
    ultimately show ?thesis using len by linarith
  qed
  let ?lines = "history_lines (recentMessages (map (\<lambda>r. (message r, sender r)) ?rec))"
  have "(lit ''user'', msg) \<in> set (recentMessages (map (\<lambda>r. (message r, sender r)) ?rec))"
    using 1 r by (force simp: recentMessages_def)
  moreover have "slice_last 10 (recentMessages (map (\<lambda>r. (message r, sender r)) ?rec))
        = recentMessages (map (\<lambda>r. (message r, sender r)) ?rec)"
    using len by (simp add: slice_last_def recentMessages_def)
  ultimately have line: "lit ''User: '' @ msg \<in> set ?lines"
    by (force simp: history_lines_def user_line)
  have 3: "\<exists>ctx a b. p = systemPrompt @ ctx @ lit ''\<newline>\<newline>Previous conversation:\<newline>''
                            @ (a @ (lit ''User: '' @ msg) @ b)
                            @ lit ''\<newline>\<newline>User: '' @ msg"
    if "assemble_prompt toL fl' d2 (userId s) msg g = Inr p" for p
  proof -
    from that obtain ctx where "p = fullPrompt ctx (join (lit ''\<newline>'') ?lines) msg"
      by (auto simp: assemble_prompt_def select_recent_def conversationHistory_def
          split: sum.splits if_splits)
    moreover from join_contains [OF line] obtain a b where
      "join (lit ''\<newline>'') ?lines = a @ (lit ''User: '' @ msg) @ b" by blast
    ultimately show ?thesis by (auto simp: fullPrompt_def)
  qed
  from 1 2 3 line show ?thesis by blast
qed

lemma five_turns_ok: "db_ok five_turns"
  by (simp add: db_ok_def five_turns_def empty_db_def turn_def)

lemma submit_hi:
  "chat_message no_faults alice five_turns \<lparr>cm_message = Some (lit ''hi''), cm_goalId = None\<rparr>
     = (submit_all alice five_turns [lit ''hi''],
        Persist (turn 7 7 (lit ''hi'') User 51)
          # [Emit 1 (ChatMessageEv 7 (lit ''hi'') User 51), SetTimeout 1000 1 (lit ''hi'') None])"
  by (simp add: chat_message_def insert_chat_message_def no_faults_def alice_def five_turns_def
      empty_db_def turn_def trim_def js_whitespace_def lit_def or_null_def truthy_id_def Let_def)

lemma after_hi:
  "chat_messages (submit_all alice five_turns [lit ''hi''])
     = chat_messages five_turns @ [turn 7 7 (lit ''hi'') User 51]"
  by (simp add: chat_message_def insert_chat_message_def no_faults_def alice_def five_turns_def
      empty_db_def turn_def trim_def js_whitespace_def lit_def or_null_def truthy_id_def Let_def)

text \<open>The generation runs on the store that the submit of \<open>hi\<close> left.\<close>

theorem current_turn_in_memory_witness:
  "chat_message no_faults alice five_turns \<lparr>cm_message = Some (lit ''hi''), cm_goalId = None\<rparr>
     = (submit_all alice five_turns [lit ''hi''],
        Persist (turn 7 7 (lit ''hi'') User 51)
          # [Emit 1 (ChatMessageEv 7 (lit ''hi'') User 51), SetTimeout 1000 1 (lit ''hi'') None])
   \<and> db_ok (submit_all alice five_turns [lit ''hi''])
   \<and> turn 7 7 (lit ''hi'') User 51 \<in> set (chat_messages (submit_all alice five_turns [lit ''hi'']))
   \<and> turn 7 7 (lit ''hi'') User 51 \<in> set (recent_rows (submit_all alice five_turns [lit ''hi'']) 7)
   \<and> length [x \<leftarrow> recent_rows (submit_all alice five_turns [lit ''hi'']) 7.
                timestamp x < 51] \<le> 9"
proof -
  have ok: "db_ok (submit_all alice five_turns [lit ''hi''])"
    using db_ok_chat_message [OF five_turns_ok submit_hi] .
  have kept: "turn 7 7 (lit ''hi'') User 51
      \<in> set (chat_messages (submit_all alice five_turns [lit ''hi'']))"
    by (subst after_hi) simp
  have few: "length [x \<leftarrow> chat_messages (submit_all alice five_turns [lit ''hi'']).
       user_id x = userId alice \<and> timestamp (turn 7 7 (lit ''hi'') User 51) < timestamp x] < 10"
    by (subst after_hi) (simp add: five_turns_def empty_db_def turn_def alice_def)
  from current_turn_in_memory [OF submit_hi ok kept few]
  have "turn 7 7 (lit ''hi'') User 51 \<in> set (recent_rows (submit_all alice five_turns [lit ''hi'']) 7)
     \<and> length [x \<leftarrow> recent_rows (submit_all alice five_turns [lit ''hi'']) 7.
                timestamp x < 51] \<le> 9"
    by (simp add: alice_def turn_def)
  with submit_hi ok kept show ?thesis by blast
qed

text \<open>
  C10 as stated fails when the caller submits ten more messages before the timer of
  the first fires: the memory then holds the ten later turns and not the first.
\<close>

theorem burst_pushes_turn_out_of_memory:
  "snd (chat_message no_faults alice empty_db
          \<lparr>cm_message = Some (lit ''first''), cm_goalId = None\<rparr>)
     = [Persist (turn 1 7 (lit ''first'') User 0),
        Emit 1 (ChatMessageEv 1 (lit ''first'') User 0),
        SetTimeout 1000 1 (lit ''first'') None]
   \<and> select_recent (f_recent no_faults)
        (submit_all alice empty_db
           [lit ''first'', lit ''next'', lit ''next'', lit ''next'', lit ''next'', lit ''next'',
            lit ''next'', lit ''next'', lit ''next'', lit ''next'', lit ''next'']) 7
     = Inr [(lit ''next'', User), (lit ''next'', User), (lit ''next'', User),
            (lit ''next'', User), (lit ''next'', User), (lit ''next'', User),
            (lit ''next'', User), (lit ''next'', User), (lit ''next'', User),
            (lit ''next'', User)]
   \<and> (lit ''first'', User) \<noteq> (lit ''next'', User)"
  by (simp add: chat_message_def insert_chat_message_def no_faults_def alice_def
      empty_db_def turn_def trim_def js_whitespace_def lit_def or_null_def truthy_id_def Let_def
      select_recent_def recent_rows_def order_by_timestamp_desc_def)

end
